theory Spec2Isabelle
  imports Complex_Main
begin

section \<open>SolarEdge/Emporia EV solar charging maximizer\<close>

text \<open>
  A shallow embedding of \<^verbatim>\<open>solaredge-emporia-autocharge.py\<close>. A Python float is an
  IEEE 754 binary64 number: a finite double is represented by its exact rational
  value, every arithmetic operation rounds its exact result to the nearest double
  (ties to even), and infinities and NaN are one value \<open>NonFinite\<close>. Python's
  unbounded integers are \<^typ>\<open>int\<close>. Printing and the \<^verbatim>\<open>verbose\<close> flag have no effect
  on the state and are left out.
\<close>

subsection \<open>Python floats\<close>

text \<open>
  The exceptions the script's own arithmetic can raise: a division by zero, and
  \<^verbatim>\<open>int\<close> of a float that is not finite (\<^verbatim>\<open>OverflowError\<close> for an infinity,
  \<^verbatim>\<open>ValueError\<close> for NaN; one constructor stands for both).
\<close>

datatype error = ZeroDivisionError | OverflowError

text \<open>The result of a call into a collaborator: it raises or it returns a value.\<close>

datatype 'a py = Raises | Returns 'a

text \<open>
  A float: a finite double with its exact value, or an infinity or NaN. The script
  never tells the non-finite values apart: each of them ends in an exception at
  \<^verbatim>\<open>int(...)\<close>.
\<close>

datatype pyfloat = Finite rat | NonFinite

text \<open>To the nearest integer, a tie going to the even neighbour.\<close>

definition round_half_even :: "rat \<Rightarrow> int" where
  "round_half_even q =
     (let f = \<lfloor>q\<rfloor>; r = q - of_int f
      in if r < 1 / 2 then f
         else if 1 / 2 < r then f + 1
         else if even f then f else f + 1)"

definition pow2 :: "int \<Rightarrow> rat" where
  "pow2 e = (if 0 \<le> e then 2 ^ nat e else 1 / 2 ^ nat (- e))"

text \<open>
  The binary exponent of a positive number: \<open>e\<close> with \<open>2 ^ e \<le> x < 2 ^ (e + 1)\<close>,
  found by halving or doubling, and kept within the exponent range of a double
  (below \<open>-1022\<close> the doubles are subnormal and share the exponent \<open>-1022\<close>).
\<close>

function expo_up :: "int \<Rightarrow> rat \<Rightarrow> int" where
  "expo_up e x = (if x < 2 \<or> 1024 \<le> e then e else expo_up (e + 1) (x / 2))"
  by pat_completeness auto
termination
  by (relation "measure (\<lambda>(e, x). nat (1024 - e))") auto

function expo_down :: "int \<Rightarrow> rat \<Rightarrow> int" where
  "expo_down e x = (if 1 \<le> x \<or> e \<le> - 1022 then e else expo_down (e - 1) (2 * x))"
  by pat_completeness auto
termination
  by (relation "measure (\<lambda>(e, x). nat (e + 1022))") auto

declare expo_up.simps [simp del] expo_down.simps [simp del]

definition exponent :: "rat \<Rightarrow> int" where
  "exponent x = (if 1 \<le> x then expo_up 0 x else expo_down 0 x)"

text \<open>
  Rounding to 53 significant bits: the spacing of the doubles around \<open>x\<close> is
  \<open>2 ^ (e - 52)\<close>, and \<open>x\<close> goes to the nearest multiple of it, a tie to the even one.
\<close>

definition round_to_double :: "rat \<Rightarrow> rat" where
  "round_to_double x =
     (if x = 0 then 0
      else let u = pow2 (exponent \<bar>x\<bar> - 52) in of_int (round_half_even (x / u)) * u)"

text \<open>
  The double nearest to a number (a decimal literal read by \<^verbatim>\<open>float\<close> or by the JSON
  decoder, an integer converted to float, the exact result of an operation): a result
  of magnitude \<open>2 ^ 1024\<close> or more, before or after rounding, is an infinity.
\<close>

definition float_of :: "rat \<Rightarrow> pyfloat" where
  "float_of x =
     (if 2 ^ 1024 \<le> \<bar>x\<bar> then NonFinite
      else let r = round_to_double x in if 2 ^ 1024 \<le> \<bar>r\<bar> then NonFinite else Finite r)"

text \<open>
  \<^verbatim>\<open>a + b\<close>, \<open>a - b\<close>, \<open>a * b\<close>, \<open>a / b\<close> on floats. The script divides by 240 and by
  the length of a non-empty list only, so the divisor is finite and not zero.
\<close>

definition float_op :: "(rat \<Rightarrow> rat \<Rightarrow> rat) \<Rightarrow> pyfloat \<Rightarrow> pyfloat \<Rightarrow> pyfloat" where
  "float_op f a b =
     (case a of
        NonFinite \<Rightarrow> NonFinite
      | Finite x \<Rightarrow> (case b of NonFinite \<Rightarrow> NonFinite | Finite y \<Rightarrow> float_of (f x y)))"

definition fadd :: "pyfloat \<Rightarrow> pyfloat \<Rightarrow> pyfloat" where
  "fadd a b = float_op (\<lambda>x y. x + y) a b"

definition fsub :: "pyfloat \<Rightarrow> pyfloat \<Rightarrow> pyfloat" where
  "fsub a b = float_op (\<lambda>x y. x - y) a b"

definition fmul :: "pyfloat \<Rightarrow> pyfloat \<Rightarrow> pyfloat" where
  "fmul a b = float_op (\<lambda>x y. x * y) a b"

definition fdiv :: "pyfloat \<Rightarrow> pyfloat \<Rightarrow> pyfloat" where
  "fdiv a b = float_op (\<lambda>x y. x / y) a b"

text \<open>
  \<^verbatim>\<open>round(x, 2)\<close> on a float: the exact value of the double is rounded to two decimals,
  a tie going to the even hundredth, and the result is the double nearest to that
  decimal. A non-finite float is returned as it is.
\<close>

definition round2 :: "pyfloat \<Rightarrow> pyfloat" where
  "round2 a =
     (case a of
        NonFinite \<Rightarrow> NonFinite
      | Finite x \<Rightarrow> float_of (of_int (round_half_even (x * 100)) / 100))"

text \<open>
  \<^verbatim>\<open>int(x)\<close> on a float: the fractional part is discarded (truncation toward zero); an
  infinity or NaN raises.
\<close>

definition py_int :: "pyfloat \<Rightarrow> error + int" where
  "py_int a =
     (case a of
        NonFinite \<Rightarrow> Inl OverflowError
      | Finite x \<Rightarrow> Inr (if x < 0 then - \<lfloor>- x\<rfloor> else \<lfloor>x\<rfloor>))"

text \<open>
  \<^verbatim>\<open>sum(xs)\<close> on a list of floats: the items are added from left to right, starting
  from 0, each addition rounding. (CPython adds this way up to version 3.11; from 3.12
  on it carries a compensation term, which gives the same result for one or two
  items.)
\<close>

definition sum_floats :: "pyfloat list \<Rightarrow> pyfloat" where
  "sum_floats xs = foldl fadd (Finite 0) xs"

text \<open>
  \<^verbatim>\<open>xs[start:]\<close>: a negative start counts from the end and is clipped at the front;
  a start beyond the end gives the empty list.
\<close>

definition slice_from :: "int \<Rightarrow> 'a list \<Rightarrow> 'a list" where
  "slice_from start xs =
     (let n = int (length xs);
          i = (if start < 0 then max (start + n) 0 else min start n)
      in drop (nat i) xs)"

subsection \<open>Configuration (module level, lines 32--78)\<close>

definition MIN_AMPS :: int where "MIN_AMPS = 6"
definition MAX_AMPS :: int where "MAX_AMPS = 40"

record config =
  update_freq :: int
  smooth :: int
  min_amps :: int
  max_amps :: int
  offset_amps :: int

text \<open>
  The command-line arguments after \<^verbatim>\<open>int(...)\<close>: \<open>None\<close> is an option that was not
  given. An option whose text is not an integer stops the script at start-up and is
  not a configuration.
\<close>

record args =
  arg_freq :: "int option"
  arg_smooth :: "int option"
  arg_min_amps :: "int option"
  arg_max_amps :: "int option"
  arg_offset_amps :: "int option"

definition configure :: "args \<Rightarrow> config" where
  "configure a =
     \<lparr> update_freq = (case arg_freq a of None \<Rightarrow> 60 | Some v \<Rightarrow> v),
       smooth = (case arg_smooth a of None \<Rightarrow> 5 | Some v \<Rightarrow> v),
       min_amps = (case arg_min_amps a of None \<Rightarrow> MIN_AMPS | Some v \<Rightarrow> max v MIN_AMPS),
       max_amps = (case arg_max_amps a of None \<Rightarrow> MAX_AMPS | Some v \<Rightarrow> min v MAX_AMPS),
       offset_amps = (case arg_offset_amps a of None \<Rightarrow> 0 | Some v \<Rightarrow> v) \<rparr>"

definition no_args :: args where
  "no_args = \<lparr> arg_freq = None, arg_smooth = None, arg_min_amps = None,
               arg_max_amps = None, arg_offset_amps = None \<rparr>"

subsection \<open>Charger usage (\<^verbatim>\<open>vue_calc_usage_recursive\<close>, lines 119--129)\<close>

text \<open>
  The usage dictionary maps a device id to a device, a device maps a channel number to
  a channel, and a channel has a usage (a number, given here by its decimal value, or
  \<^verbatim>\<open>None\<close>) and nested devices. Dictionaries are association lists in iteration
  order. The variable \<^verbatim>\<open>usage\<close> is the accumulator: it starts at 0 and each channel adds
  its usage and then the total of its nested devices, in this order.
\<close>

datatype channel = Channel (usage: "rat option") (nested_devices: "(nat \<times> device) list")
and device = Device (channels: "(string \<times> channel) list")

fun calc_devices :: "pyfloat \<Rightarrow> (nat \<times> device) list \<Rightarrow> pyfloat"
and calc_channels :: "pyfloat \<Rightarrow> (string \<times> channel) list \<Rightarrow> pyfloat"
where
  "calc_devices acc [] = acc"
| "calc_devices acc ((gid, Device chs) # ds) = calc_devices (calc_channels acc chs) ds"
| "calc_channels acc [] = acc"
| "calc_channels acc ((channelnum, Channel u nd) # cs) =
     calc_channels
       (let acc1 = (case u of Some x \<Rightarrow> fadd acc (float_of x) | None \<Rightarrow> acc)
        in if nd \<noteq> [] then fadd acc1 (calc_devices (Finite 0) nd) else acc1)
       cs"

definition vue_calc_usage_recursive :: "(nat \<times> device) list \<Rightarrow> pyfloat" where
  "vue_calc_usage_recursive usage_dict = calc_devices (Finite 0) usage_dict"

subsection \<open>Sliding average (lines 179--192)\<close>

text \<open>
  \<^verbatim>\<open>sliding_average.values\<close> is the function attribute holding the history; before the
  first call it does not exist and the call creates it empty. The function returns the
  new history together with the mean, or \<^verbatim>\<open>ZeroDivisionError\<close> when the history is
  empty after trimming (the history has been stored by then).
\<close>

definition sliding_average ::
  "pyfloat \<Rightarrow> int \<Rightarrow> pyfloat list \<Rightarrow> (error + pyfloat) \<times> pyfloat list" where
  "sliding_average num list_size vals =
     (let vs = vals @ [num];
          vs' = (if int (length vs) > list_size then slice_from (- list_size) vs else vs)
      in (if vs' = [] then Inl ZeroDivisionError
          else Inr (fdiv (sum_floats vs') (float_of (of_nat (length vs')))), vs'))"

text \<open>The history after a sequence of calls with the same window size.\<close>

fun observe_all :: "int \<Rightarrow> pyfloat list \<Rightarrow> pyfloat list \<Rightarrow> pyfloat list" where
  "observe_all list_size [] vals = vals"
| "observe_all list_size (x # xs) vals =
     observe_all list_size xs (snd (sliding_average x list_size vals))"

subsection \<open>One cycle (\<^verbatim>\<open>update_charge_amp_by_solaredge_data\<close>, lines 195--243)\<close>

text \<open>
  The state that lives across cycles: the history of the sliding average and the
  \<^verbatim>\<open>charging_rate\<close> attribute of the charger object \<^verbatim>\<open>charger_device.ev_charger\<close>, which
  is fetched once at start-up (lines 161--176) and kept in memory.
\<close>

record world =
  sa_values :: "pyfloat list"
  charging_rate :: int

text \<open>
  What the collaborators answer during one cycle.
  \<^item> \<open>power_flow\<close>: \<^verbatim>\<open>solaredge_get_site_power_flow\<close> raises, or returns a JSON value in
    which the two \<^verbatim>\<open>currentPower\<close> fields are numbers (\<open>Some (prod, cons)\<close>, the decimal
    values of PV and LOAD) or are missing or not numeric (\<open>None\<close>).
  \<^item> \<open>device_usage\<close>: \<^verbatim>\<open>vue.get_device_list_usage\<close> raises or returns the usage dictionary.
  \<^item> \<open>update_charger\<close>: \<^verbatim>\<open>vue.update_charger\<close> raises, or returns with the charger object
    holding the given rate (the library is not part of the script, so what it leaves
    in the object is a parameter).
  \<^item> \<open>backend_rate\<close>: the setpoint the charger itself has when the cycle starts; the
    owner may have changed it since the last cycle.
\<close>

record env =
  power_flow :: "(rat \<times> rat) option py"
  device_usage :: "(nat \<times> device) list py"
  update_charger :: "int py"
  backend_rate :: int

text \<open>
  What one call does: the state it leaves, the setpoint it passed to
  \<^verbatim>\<open>vue.update_charger\<close> (if it called it), and whether an exception left the function.
\<close>

record result =
  res_world :: world
  res_command :: "int option"
  res_raised :: bool

text \<open>Lines 216--223: the fused value fed to the sliding average.\<close>

definition prod_min_cons_kw :: "pyfloat \<Rightarrow> pyfloat \<Rightarrow> pyfloat" where
  "prod_min_cons_kw prod_kw cons_kw = round2 (fsub prod_kw cons_kw)"

definition cur_charger_usage_kw :: "(nat \<times> device) list \<Rightarrow> pyfloat" where
  "cur_charger_usage_kw device_usage_dict =
     round2 (fmul (vue_calc_usage_recursive device_usage_dict) (Finite 60))"

definition available_for_charger_kw ::
  "pyfloat \<Rightarrow> pyfloat \<Rightarrow> (nat \<times> device) list \<Rightarrow> pyfloat" where
  "available_for_charger_kw prod_kw cons_kw device_usage_dict =
     round2 (fadd (prod_min_cons_kw prod_kw cons_kw) (cur_charger_usage_kw device_usage_dict))"

text \<open>Lines 229--231: from the smoothed power to the commanded current.\<close>

definition amps_from_kw :: "pyfloat \<Rightarrow> error + int" where
  "amps_from_kw average_kw = py_int (fdiv (fmul average_kw (Finite 1000)) (Finite 240))"

definition clamp_amps :: "int \<Rightarrow> int \<Rightarrow> int \<Rightarrow> int" where
  "clamp_amps amps mn mx = max (min amps mx) mn"

definition final_amps :: "config \<Rightarrow> pyfloat \<Rightarrow> error + int" where
  "final_amps cfg average_kw =
     (case amps_from_kw average_kw of
        Inl err \<Rightarrow> Inl err
      | Inr a \<Rightarrow> Inr (clamp_amps (a + offset_amps cfg) (min_amps cfg) (max_amps cfg)))"

text \<open>
  Lines 229--238 as one decision: the commanded current and whether it differs from
  \<^verbatim>\<open>pre_change\<close>, the rate the charger object holds.
\<close>

definition decide :: "config \<Rightarrow> pyfloat \<Rightarrow> int \<Rightarrow> error + int \<times> bool" where
  "decide cfg average_kw pre_change =
     (case final_amps cfg average_kw of
        Inl err \<Rightarrow> Inl err
      | Inr final \<Rightarrow> Inr (final, pre_change \<noteq> final))"

definition update_charge_amp_by_solaredge_data :: "config \<Rightarrow> env \<Rightarrow> world \<Rightarrow> result" where
  "update_charge_amp_by_solaredge_data cfg e w =
     (case power_flow e of
        Raises \<Rightarrow> \<lparr> res_world = w, res_command = None, res_raised = False \<rparr>
      | Returns None \<Rightarrow> \<lparr> res_world = w, res_command = None, res_raised = True \<rparr>
      | Returns (Some (pv, load)) \<Rightarrow>
          (case device_usage e of
             Raises \<Rightarrow> \<lparr> res_world = w, res_command = None, res_raised = True \<rparr>
           | Returns device_usage_dict \<Rightarrow>
               (let prod_kw = float_of pv;
                    cons_kw = float_of load;
                    available = available_for_charger_kw prod_kw cons_kw device_usage_dict;
                    (avg, vs) = sliding_average available (smooth cfg) (sa_values w);
                    w1 = w \<lparr> sa_values := vs \<rparr>
                in case avg of
                     Inl err \<Rightarrow> \<lparr> res_world = w1, res_command = None, res_raised = True \<rparr>
                   | Inr a \<Rightarrow>
                       (case decide cfg (round2 a) (charging_rate w1) of
                          Inl err \<Rightarrow>
                            \<lparr> res_world = w1, res_command = None, res_raised = True \<rparr>
                        | Inr (final, changed) \<Rightarrow>
                            if \<not> changed
                            then \<lparr> res_world = w1, res_command = None, res_raised = False \<rparr>
                            else (case update_charger e of
                                    Raises \<Rightarrow>
                                      \<lparr> res_world = w1 \<lparr> charging_rate := final \<rparr>,
                                        res_command = Some final, res_raised = True \<rparr>
                                  | Returns r \<Rightarrow>
                                      \<lparr> res_world = w1 \<lparr> charging_rate := r \<rparr>,
                                        res_command = Some final, res_raised = False \<rparr>)))))"

subsection \<open>The service loop (lines 249--254)\<close>

text \<open>
  The loop never ends by itself; the list gives the collaborators' answers for the
  cycles that are observed, one entry per cycle, and the result is the list of the
  cycles that ran. An exception leaving the cycle ends the script, as does
  \<^verbatim>\<open>time.sleep\<close> on a negative period.
\<close>

fun service :: "config \<Rightarrow> env list \<Rightarrow> world \<Rightarrow> result list" where
  "service cfg [] w = []"
| "service cfg (e # es) w =
     (let r = update_charge_amp_by_solaredge_data cfg e w
      in r # (if res_raised r \<or> update_freq cfg < 0 then []
              else service cfg es (res_world r)))"

text \<open>The state at start-up: no history yet, the charger object as fetched.\<close>

definition initial_world :: "int \<Rightarrow> world" where
  "initial_world rate = \<lparr> sa_values = [], charging_rate = rate \<rparr>"

subsection \<open>Example inputs\<close>

text \<open>
  A charger drawing 0.025 kWh in the last minute (1.5 kW), and a cycle with 5 kW of
  production and 2 kW of consumption in which every collaborator answers.
\<close>

definition example_usage :: "(nat \<times> device) list" where
  "example_usage = [(1, Device [(''1'', Channel (Some (25 / 1000)) [])])]"

definition example_env :: env where
  "example_env =
     \<lparr> power_flow = Returns (Some (5, 2)), device_usage = Returns example_usage,
       update_charger = Returns 18, backend_rate = 6 \<rparr>"

section \<open>Properties\<close>

subsection \<open>Evaluating floats\<close>

lemma floor_rat_numeral_div:
  "\<lfloor>numeral a / numeral b :: rat\<rfloor> = numeral a div numeral b"
  using floor_divide_of_int_eq[of "numeral a" "numeral b", where ?'a = rat] by simp

lemma floor_rat_minus_numeral_div:
  "\<lfloor>- (numeral a / numeral b) :: rat\<rfloor> = - numeral a div numeral b"
  using floor_divide_of_int_eq[of "- numeral a" "numeral b", where ?'a = rat] by simp

lemmas floor_eval = floor_rat_numeral_div floor_rat_minus_numeral_div

lemmas float_eval =
  float_of_def round_to_double_def exponent_def expo_up.simps expo_down.simps pow2_def
  round_half_even_def Let_def floor_eval float_op_def fadd_def fsub_def fmul_def fdiv_def
  round2_def py_int_def sum_floats_def

text \<open>
  Some values as Python gives them: \<^verbatim>\<open>round(2.155, 2)\<close> is 2.15, a usage of 0.00025
  kWh is a draw of 0.01 kW (\<^verbatim>\<open>round(0.00025 * 60.0, 2)\<close>), the mean of 1.67 and 1.68
  rounds to 1.67, and \<^verbatim>\<open>sum([0.1] * 3)\<close> is 0.30000000000000004.
\<close>

lemma round2_2155: "round2 (float_of (2155 / 1000)) = float_of (215 / 100)"
  by (simp add: float_eval)

lemma cur_charger_usage_kw_small:
  "cur_charger_usage_kw [(1, Device [(''1'', Channel (Some (25 / 100000)) [])])]
   = float_of (1 / 100)"
  by (simp add: cur_charger_usage_kw_def vue_calc_usage_recursive_def float_eval)

lemma mean_167_168:
  "round2 (fdiv (sum_floats [float_of (167 / 100), float_of (168 / 100)]) (float_of 2))
   = float_of (167 / 100)"
  by (simp add: float_eval)

lemma sum_floats_tenths:
  "sum_floats [float_of (1 / 10), float_of (1 / 10), float_of (1 / 10)]
   = Finite (1351079888211149 / 4503599627370496)"
  by (simp add: float_eval)

subsection \<open>Signs are kept by rounding\<close>

lemma pow2_pos: "0 < pow2 e"
  by (simp add: pow2_def)

lemma round_half_even_nonneg: "0 \<le> q \<Longrightarrow> 0 \<le> round_half_even q"
  by (auto simp: round_half_even_def Let_def)

lemma round_half_even_nonpos:
  assumes "q \<le> 0"
  shows "round_half_even q \<le> 0"
proof (cases "\<lfloor>q\<rfloor> = 0")
  case True
  then have "0 \<le> q" by (simp add: floor_eq_iff)
  with assms have "q = 0" by simp
  then show ?thesis by (simp add: round_half_even_def)
next
  case False
  moreover have "\<lfloor>q\<rfloor> \<le> 0" using floor_mono[OF assms] by (simp only: floor_zero)
  ultimately have "\<lfloor>q\<rfloor> + 1 \<le> 0" by linarith
  then show ?thesis by (auto simp: round_half_even_def Let_def)
qed

lemma round_to_double_sign:
  "(0 \<le> x \<longrightarrow> 0 \<le> round_to_double x) \<and> (x \<le> 0 \<longrightarrow> round_to_double x \<le> 0)"
proof (cases "x = 0")
  case True
  then show ?thesis by (simp add: round_to_double_def)
next
  case False
  define u where "u = pow2 (exponent \<bar>x\<bar> - 52)"
  have u: "0 < u" by (simp add: u_def pow2_pos)
  have r: "round_to_double x = of_int (round_half_even (x / u)) * u"
    using False by (simp add: round_to_double_def u_def Let_def)
  have "0 \<le> round_to_double x" if "0 \<le> x"
  proof -
    have "0 \<le> x / u" using that u by simp
    then have "0 \<le> round_half_even (x / u)" by (rule round_half_even_nonneg)
    then show ?thesis using u by (simp add: r)
  qed
  moreover have "round_to_double x \<le> 0" if "x \<le> 0"
  proof -
    have "x / u \<le> 0" using that u by (simp add: divide_le_0_iff)
    then have "round_half_even (x / u) \<le> 0" by (rule round_half_even_nonpos)
    then show ?thesis using u by (simp add: r mult_le_0_iff)
  qed
  ultimately show ?thesis by blast
qed

lemma float_of_sign:
  assumes "float_of x = Finite r"
  shows "(0 \<le> x \<longrightarrow> 0 \<le> r) \<and> (x \<le> 0 \<longrightarrow> r \<le> 0)"
proof -
  have "r = round_to_double x"
    using assms by (simp add: float_of_def Let_def split: if_splits)
  then show ?thesis using round_to_double_sign[of x] by simp
qed

subsection \<open>The sliding window\<close>

lemma slice_from_last:
  assumes "1 \<le> n" "int (length ys) > n"
  shows "slice_from (- n) ys = drop (length ys - nat n) ys"
proof -
  have "nat (max (- n + int (length ys)) 0) = length ys - nat n"
    using assms by simp
  then show ?thesis
    using assms by (simp add: slice_from_def Let_def)
qed

lemma snd_sliding_average:
  assumes "1 \<le> n"
  shows "snd (sliding_average x n vals) = drop (length (vals @ [x]) - nat n) (vals @ [x])"
proof (cases "int (length (vals @ [x])) > n")
  case True
  then show ?thesis
    using slice_from_last[OF assms True] by (simp add: sliding_average_def Let_def)
next
  case False
  then have "length (vals @ [x]) - nat n = 0" by simp
  then show ?thesis
    using False by (simp add: sliding_average_def Let_def del: length_append)
qed

lemma drop_last_append:
  "drop (length (drop (length ys - n) ys @ xs) - n) (drop (length ys - n) ys @ xs)
   = drop (length (ys @ xs) - n) (ys @ xs)"
proof (cases "length ys \<le> n")
  case True
  then show ?thesis by simp
next
  case False
  then have "n < length ys" by simp
  then show ?thesis by (simp add: drop_append add.commute)
qed

lemma observe_all_last:
  assumes "1 \<le> n"
  shows "length vals \<le> nat n \<Longrightarrow>
         observe_all n xs vals = drop (length (vals @ xs) - nat n) (vals @ xs)"
proof (induction xs arbitrary: vals)
  case Nil
  then show ?case by simp
next
  case (Cons x xs)
  let ?v = "drop (length (vals @ [x]) - nat n) (vals @ [x])"
  have len: "length ?v \<le> nat n"
    using assms by simp
  have "observe_all n (x # xs) vals = observe_all n xs ?v"
    using snd_sliding_average[OF assms] by simp
  also have "\<dots> = drop (length (?v @ xs) - nat n) (?v @ xs)"
    using Cons.IH[OF len] .
  also have "\<dots> = drop (length ((vals @ [x]) @ xs) - nat n) ((vals @ [x]) @ xs)"
    by (rule drop_last_append)
  finally show ?case by simp
qed

text \<open>
  C8. With a window size \<open>n \<ge> 1\<close>, after any sequence \<open>xs\<close> of calls to
  \<^verbatim>\<open>sliding_average\<close> (starting from the empty history) the history is never longer
  than \<open>n\<close> and consists of the last \<open>min (length xs) n\<close> values in arrival order: the
  oldest value is the one dropped when a new one arrives at a full history. As \<open>xs\<close>
  is arbitrary, this holds after each call.
\<close>

theorem sliding_window_fifo:
  "1 \<le> n \<Longrightarrow>
     observe_all n xs [] = drop (length xs - nat n) xs
     \<and> length (observe_all n xs []) \<le> nat n
     \<and> length (observe_all n xs []) = min (length xs) (nat n)"
  using observe_all_last[of n "[]" xs] by auto

theorem sliding_window_fifo_witness:
  "(1::int) \<le> 3
   \<and> observe_all 3 [Finite 10, Finite 12, Finite 11, Finite 8] []
       = [Finite 12, Finite 11, Finite 8]
   \<and> length (observe_all 3 [Finite 10, Finite 12, Finite 11, Finite 8] []) \<le> 3
   \<and> length (observe_all 3 [Finite 10, Finite 12, Finite 11, Finite 8] []) = 3"
  using sliding_window_fifo[of 3 "[Finite 10, Finite 12, Finite 11, Finite 8]"] by simp

lemma sliding_average_zero:
  "sliding_average x 0 vals =
     (Inr (fdiv (sum_floats (vals @ [x])) (float_of (of_nat (length (vals @ [x]))))),
      vals @ [x])"
  by (simp add: sliding_average_def slice_from_def Let_def)

text \<open>
  C10. With a window size of 0 the slice \<^verbatim>\<open>values[-0:]\<close> is the whole list: a call
  appends its value, trims nothing and returns the mean of every value seen so far
  (their sum divided by their number), and after any sequence of calls the history
  holds all of them.
\<close>

theorem sliding_window_zero_unbounded:
  "sliding_average x 0 vals =
     (Inr (fdiv (sum_floats (vals @ [x])) (float_of (of_nat (length (vals @ [x]))))),
      vals @ [x])
   \<and> observe_all 0 xs vals = vals @ xs
   \<and> length (observe_all 0 xs []) = length xs"
proof -
  have all: "observe_all 0 xs vals = vals @ xs" for vals
    by (induction xs arbitrary: vals) (simp_all add: sliding_average_zero)
  show ?thesis
    using all sliding_average_zero by simp
qed

lemma mean_example:
  "fdiv (sum_floats [Finite 10, Finite 12, Finite 11, Finite 8]) (float_of 4) = Finite (41 / 4)"
  by (simp add: float_eval)

theorem sliding_window_zero_unbounded_witness:
  "sliding_average (Finite 8) 0 [Finite 10, Finite 12, Finite 11]
     = (Inr (Finite (41 / 4)), [Finite 10, Finite 12, Finite 11, Finite 8])
   \<and> observe_all 0 [Finite 10, Finite 12, Finite 11, Finite 8] []
       = [Finite 10, Finite 12, Finite 11, Finite 8]"
  using sliding_window_zero_unbounded[of "Finite 8" "[Finite 10, Finite 12, Finite 11]" "[]"]
        sliding_window_zero_unbounded[of "Finite 8" "[]"
          "[Finite 10, Finite 12, Finite 11, Finite 8]"]
  by (simp add: mean_example del: observe_all.simps)

subsection \<open>From power to current\<close>

lemma amps_quotient_sign:
  assumes "fdiv (fmul (Finite v) (Finite 1000)) (Finite 240) = Finite q"
  shows "(0 \<le> v \<longrightarrow> 0 \<le> q) \<and> (v < 0 \<longrightarrow> q \<le> 0)"
proof -
  obtain m where m: "float_of (v * 1000) = Finite m" and q: "float_of (m / 240) = Finite q"
    using assms by (auto simp: fdiv_def fmul_def float_op_def split: pyfloat.splits)
  have "0 \<le> q" if "0 \<le> v"
  proof -
    have "0 \<le> m" using float_of_sign[OF m] that by simp
    then show ?thesis using float_of_sign[OF q] by simp
  qed
  moreover have "q \<le> 0" if "v < 0"
  proof -
    have "m \<le> 0" using float_of_sign[OF m] that by (simp add: mult_le_0_iff)
    then show ?thesis using float_of_sign[OF q] by (simp add: divide_le_0_iff)
  qed
  ultimately show ?thesis by blast
qed

text \<open>
  C7. The claim that the raw amperage is the floor of the exact quotient
  \<open>v * 1000 / 240\<close> for every \<open>v\<close> fails twice. For a negative value \<^verbatim>\<open>int\<close> truncates
  toward zero: \<open>-0.1\<close> kW gives 0 A, while the floor of \<open>-100 / 240\<close> is \<open>-1\<close>. And the
  quotient is computed in double precision: for the double nearest to 0.24 the
  product is rounded to 240 and the script gives 1 A, while the floor of the exact
  quotient of that double is 0; for 16.08 the script gives 66 A, while the floor of
  \<open>16080 / 240\<close> is 67.
\<close>

theorem amps_from_kw_not_floor:
  "amps_from_kw (float_of (- 1 / 10)) \<noteq> Inr \<lfloor>(- 1 / 10 :: rat) * 1000 / 240\<rfloor>
   \<and> float_of (24 / 100) = Finite (1080863910568919 / 4503599627370496)
   \<and> amps_from_kw (Finite (1080863910568919 / 4503599627370496))
       \<noteq> Inr \<lfloor>(1080863910568919 / 4503599627370496 :: rat) * 1000 / 240\<rfloor>
   \<and> amps_from_kw (float_of (1608 / 100)) \<noteq> Inr \<lfloor>(1608 / 100 :: rat) * 1000 / 240\<rfloor>"
  by (simp add: amps_from_kw_def float_eval)

text \<open>
  C7, amended. Let \<open>q\<close> be the quotient \<open>v * 1000 / 240\<close> as the script computes it, the
  product and the quotient each rounded to the nearest double. For \<open>v \<ge> 0\<close> the raw
  amperage is the floor of \<open>q\<close>; for \<open>v < 0\<close> it is the ceiling of \<open>q\<close> (truncation
  toward zero). When the computed quotient is not finite, \<^verbatim>\<open>int\<close> raises.
\<close>

theorem amps_from_kw_truncates:
  "(fdiv (fmul (Finite v) (Finite 1000)) (Finite 240) = Finite q \<and> 0 \<le> v
      \<longrightarrow> amps_from_kw (Finite v) = Inr \<lfloor>q\<rfloor>)
   \<and> (fdiv (fmul (Finite v) (Finite 1000)) (Finite 240) = Finite q \<and> v < 0
      \<longrightarrow> amps_from_kw (Finite v) = Inr \<lceil>q\<rceil>)
   \<and> (fdiv (fmul (Finite v) (Finite 1000)) (Finite 240) = NonFinite
      \<longrightarrow> amps_from_kw (Finite v) = Inl OverflowError)"
proof -
  have "amps_from_kw (Finite v) = Inr \<lfloor>q\<rfloor>"
    if "fdiv (fmul (Finite v) (Finite 1000)) (Finite 240) = Finite q" "0 \<le> v"
    using amps_quotient_sign[OF that(1)] that by (simp add: amps_from_kw_def py_int_def)
  moreover have "amps_from_kw (Finite v) = Inr \<lceil>q\<rceil>"
    if "fdiv (fmul (Finite v) (Finite 1000)) (Finite 240) = Finite q" "v < 0"
  proof (cases "q = 0")
    case True
    then show ?thesis using that by (simp add: amps_from_kw_def py_int_def)
  next
    case False
    then have "q < 0" using amps_quotient_sign[OF that(1)] that(2) by simp
    then show ?thesis using that by (simp add: amps_from_kw_def py_int_def ceiling_def)
  qed
  moreover have "amps_from_kw (Finite v) = Inl OverflowError"
    if "fdiv (fmul (Finite v) (Finite 1000)) (Finite 240) = NonFinite"
    using that by (simp add: amps_from_kw_def py_int_def)
  ultimately show ?thesis by blast
qed

lemma quotient_examples:
  "fdiv (fmul (Finite (9 / 2)) (Finite 1000)) (Finite 240) = Finite (75 / 4)"
  "fdiv (fmul (Finite (- 3602879701896397 / 36028797018963968)) (Finite 1000)) (Finite 240)
   = Finite (- 7505999378950827 / 18014398509481984)"
  "fdiv (fmul (Finite (2 ^ 1023)) (Finite 1000)) (Finite 240) = NonFinite"
  by (simp_all add: float_eval)

theorem amps_from_kw_truncates_witness:
  "(fdiv (fmul (Finite (9 / 2)) (Finite 1000)) (Finite 240) = Finite (75 / 4)
      \<and> (0::rat) \<le> 9 / 2 \<and> amps_from_kw (Finite (9 / 2)) = Inr 18)
   \<and> (fdiv (fmul (Finite (- 3602879701896397 / 36028797018963968)) (Finite 1000)) (Finite 240)
        = Finite (- 7505999378950827 / 18014398509481984)
      \<and> (- 3602879701896397 / 36028797018963968 :: rat) < 0
      \<and> amps_from_kw (Finite (- 3602879701896397 / 36028797018963968)) = Inr 0)
   \<and> (fdiv (fmul (Finite (2 ^ 1023)) (Finite 1000)) (Finite 240) = NonFinite
      \<and> amps_from_kw (Finite (2 ^ 1023)) = Inl OverflowError)"
  using amps_from_kw_truncates[of "9 / 2" "75 / 4"]
        amps_from_kw_truncates[of "- 3602879701896397 / 36028797018963968"
          "- 7505999378950827 / 18014398509481984"]
        amps_from_kw_truncates[of "2 ^ 1023" 0]
        quotient_examples
  by (simp add: floor_eval ceiling_def)

subsection \<open>The clamp\<close>

text \<open>
  C6. The claim that the clamp returns \<open>maxAmps\<close> for every \<open>amps > maxAmps\<close>, for all
  integers, fails when the bounds are inverted: with \<open>minAmps = 50\<close> and
  \<open>maxAmps = 40\<close> the value 45 is above the maximum and the clamp returns 50.
\<close>

theorem clamp_amps_inverted_bounds:
  "\<not> ((40::int) < 45 \<longrightarrow> clamp_amps 45 50 40 = 40)"
  by (simp add: clamp_amps_def)

text \<open>
  C6, amended. For all integers: below \<open>minAmps\<close> the clamp returns \<open>minAmps\<close>; above
  \<open>maxAmps\<close> it returns \<open>maxAmps\<close> provided \<open>minAmps \<le> maxAmps\<close>; inside the range
  it returns the value itself.
\<close>

theorem clamp_amps_cases:
  "(amps < mn \<longrightarrow> clamp_amps amps mn mx = mn)
   \<and> (mx < amps \<and> mn \<le> mx \<longrightarrow> clamp_amps amps mn mx = mx)
   \<and> (mn \<le> amps \<and> amps \<le> mx \<longrightarrow> clamp_amps amps mn mx = amps)"
  by (auto simp: clamp_amps_def)

theorem clamp_amps_cases_witness:
  "((3::int) < 6 \<and> clamp_amps 3 6 40 = 6)
   \<and> ((40::int) < 45 \<and> (6::int) \<le> 40 \<and> clamp_amps 45 6 40 = 40)
   \<and> ((6::int) \<le> 17 \<and> (17::int) \<le> 40 \<and> clamp_amps 17 6 40 = 17)"
  using clamp_amps_cases[of 3 6 40] clamp_amps_cases[of 45 6 40] clamp_amps_cases[of 17 6 40]
  by simp

subsection \<open>The hard floor and ceiling\<close>

lemma final_amps_ge_floor: "final_amps (configure a) v = Inr f \<Longrightarrow> 6 \<le> f"
  by (auto simp: configure_def final_amps_def clamp_amps_def MIN_AMPS_def
      split: option.splits sum.splits)

lemma final_amps_le_ceiling:
  "(case arg_min_amps a of None \<Rightarrow> True | Some m \<Rightarrow> m \<le> 40) \<Longrightarrow>
   final_amps (configure a) v = Inr f \<Longrightarrow> f \<le> 40"
  by (auto simp: configure_def final_amps_def clamp_amps_def MIN_AMPS_def MAX_AMPS_def
      split: option.splits sum.splits)

text \<open>
  C1. The commanded current is never below 6 A (\<open>final_amps_ge_floor\<close>), and it is at
  most 40 A when the \<^verbatim>\<open>min_amps\<close> option is at most 40 (\<open>final_amps_le_ceiling\<close>). The
  option is only raised to \<^verbatim>\<open>MIN_AMPS\<close>, never capped by \<^verbatim>\<open>MAX_AMPS\<close>: started with
  \<^verbatim>\<open>min_amps=50\<close> the script commands 50 A.
\<close>

theorem min_amps_option_exceeds_ceiling:
  "final_amps (configure (no_args \<lparr> arg_min_amps := Some 50 \<rparr>)) (Finite 0) = Inr 50"
  by (simp add: configure_def no_args_def final_amps_def clamp_amps_def amps_from_kw_def
      MIN_AMPS_def MAX_AMPS_def float_eval)

subsection \<open>One cycle and the loop\<close>

lemma available_example:
  "available_for_charger_kw (float_of 5) (float_of 2) example_usage = Finite (9 / 2)"
  by (simp add: available_for_charger_kw_def prod_min_cons_kw_def cur_charger_usage_kw_def
      vue_calc_usage_recursive_def example_usage_def float_eval)

lemma round2_example: "round2 (Finite (9 / 2)) = Finite (9 / 2)"
  by (simp add: float_eval)

lemma final_example: "final_amps (configure no_args) (Finite (9 / 2)) = Inr 18"
  by (simp add: final_amps_def clamp_amps_def amps_from_kw_def configure_def no_args_def
      MIN_AMPS_def MAX_AMPS_def float_eval)

lemma config_default: "smooth (configure no_args) = 5" "update_freq (configure no_args) = 60"
  by (simp_all add: configure_def no_args_def)

lemma sliding_first:
  "sliding_average (Finite (9 / 2)) 5 [] = (Inr (Finite (9 / 2)), [Finite (9 / 2)])"
  by (simp add: sliding_average_def float_eval)

lemmas example_eval =
  available_example round2_example final_example config_default sliding_first

lemma cycle_flow_raises:
  "power_flow e = Raises \<Longrightarrow>
   update_charge_amp_by_solaredge_data cfg e w
     = \<lparr> res_world = w, res_command = None, res_raised = False \<rparr>"
  by (simp add: update_charge_amp_by_solaredge_data_def)

lemma cycle_flow_malformed:
  "power_flow e = Returns None \<Longrightarrow>
   update_charge_amp_by_solaredge_data cfg e w
     = \<lparr> res_world = w, res_command = None, res_raised = True \<rparr>"
  by (simp add: update_charge_amp_by_solaredge_data_def)

lemma cycle_usage_raises:
  "power_flow e = Returns (Some (p, c)) \<Longrightarrow> device_usage e = Raises \<Longrightarrow>
   update_charge_amp_by_solaredge_data cfg e w
     = \<lparr> res_world = w, res_command = None, res_raised = True \<rparr>"
  by (simp add: update_charge_amp_by_solaredge_data_def)

lemma cycle_int_raises:
  assumes "power_flow e = Returns (Some (p, c))" "device_usage e = Returns d"
    and "sliding_average (available_for_charger_kw (float_of p) (float_of c) d) (smooth cfg)
           (sa_values w) = (Inr a, vs)"
    and "final_amps cfg (round2 a) = Inl err"
  shows "update_charge_amp_by_solaredge_data cfg e w
     = \<lparr> res_world = w \<lparr> sa_values := vs \<rparr>, res_command = None, res_raised = True \<rparr>"
  using assms by (simp add: update_charge_amp_by_solaredge_data_def decide_def Let_def)

lemma cycle_decided:
  assumes "power_flow e = Returns (Some (p, c))" "device_usage e = Returns d"
    and "sliding_average (available_for_charger_kw (float_of p) (float_of c) d) (smooth cfg)
           (sa_values w) = (Inr a, vs)"
    and "final_amps cfg (round2 a) = Inr final"
  shows "update_charge_amp_by_solaredge_data cfg e w =
     (let w1 = w \<lparr> sa_values := vs \<rparr>
      in if charging_rate w = final
         then \<lparr> res_world = w1, res_command = None, res_raised = False \<rparr>
         else (case update_charger e of
                 Raises \<Rightarrow> \<lparr> res_world = w1 \<lparr> charging_rate := final \<rparr>,
                             res_command = Some final, res_raised = True \<rparr>
               | Returns r \<Rightarrow> \<lparr> res_world = w1 \<lparr> charging_rate := r \<rparr>,
                               res_command = Some final, res_raised = False \<rparr>))"
  using assms by (simp add: update_charge_amp_by_solaredge_data_def decide_def Let_def)

lemma cycle_history:
  assumes "power_flow e = Returns (Some (p, c))" "device_usage e = Returns d"
  shows "sa_values (res_world (update_charge_amp_by_solaredge_data cfg e w))
     = snd (sliding_average (available_for_charger_kw (float_of p) (float_of c) d) (smooth cfg)
             (sa_values w))"
  using assms
  by (simp add: update_charge_amp_by_solaredge_data_def Let_def
      split: prod.splits sum.splits py.splits)

lemma last_sliding_average:
  assumes "0 \<le> n"
  shows "last (snd (sliding_average x n vals)) = x"
proof (cases "n = 0")
  case True
  then show ?thesis by (simp add: sliding_average_zero)
next
  case False
  then have n: "1 \<le> n" using assms by simp
  then have "length (vals @ [x]) - nat n < length (vals @ [x])" by simp
  then have "last (drop (length (vals @ [x]) - nat n) (vals @ [x])) = last (vals @ [x])"
    by (rule last_drop)
  then show ?thesis by (simp add: snd_sliding_average[OF n])
qed

text \<open>
  The SolarEdge read is the one call inside \<^verbatim>\<open>try\<close>: when it raises, the cycle leaves
  the state as it was, commands nothing, and the loop goes on to the next cycle.
\<close>

lemma service_flow_raises:
  "power_flow e = Raises \<Longrightarrow> 0 \<le> update_freq cfg \<Longrightarrow>
   service cfg (e # es) w
     = \<lparr> res_world = w, res_command = None, res_raised = False \<rparr> # service cfg es w"
  by (simp add: cycle_flow_raises Let_def)

text \<open>
  The other two calls are outside any \<^verbatim>\<open>try\<close>: an exception from
  \<^verbatim>\<open>vue.get_device_list_usage\<close> or from \<^verbatim>\<open>vue.update_charger\<close> leaves the function and
  the \<^verbatim>\<open>while\<close> loop, whatever cycles were still to come.
\<close>

lemma service_usage_raises:
  "power_flow e = Returns (Some (p, c)) \<Longrightarrow> device_usage e = Raises \<Longrightarrow>
   service cfg (e # es) w = [\<lparr> res_world = w, res_command = None, res_raised = True \<rparr>]"
  by (simp add: cycle_usage_raises Let_def)

lemma service_update_raises:
  assumes "power_flow e = Returns (Some (p, c))" "device_usage e = Returns d"
    and "sliding_average (available_for_charger_kw (float_of p) (float_of c) d) (smooth cfg)
           (sa_values w) = (Inr a, vs)"
    and "final_amps cfg (round2 a) = Inr final"
    and "charging_rate w \<noteq> final" "update_charger e = Raises"
  shows "service cfg (e # es) w
     = [\<lparr> res_world = \<lparr> sa_values = vs, charging_rate = final \<rparr>,
          res_command = Some final, res_raised = True \<rparr>]"
  using assms(5,6) by (simp add: cycle_decided[OF assms(1-4)] Let_def)

text \<open>
  C2. A cycle in which the SolarEdge read succeeds and the charger usage read raises:
  the history is unchanged and nothing is commanded, but the exception ends the loop;
  the cycle that was to follow does not run.
\<close>

theorem usage_read_failure_ends_service:
  "service (configure no_args) [example_env \<lparr> device_usage := Raises \<rparr>, example_env]
     (initial_world 6)
   = [\<lparr> res_world = initial_world 6, res_command = None, res_raised = True \<rparr>]"
  by (simp add: cycle_usage_raises[of _ 5 2] example_env_def Let_def)

text \<open>
  C3. A cycle in which both reads succeed, the commanded current (18 A) differs from
  the rate held (6 A) and the setpoint write raises: the history holds this cycle's
  reading, but the exception ends the loop; the cycle that was to follow does not run.
\<close>

theorem setpoint_write_failure_ends_service:
  "service (configure no_args) [example_env \<lparr> update_charger := Raises \<rparr>, example_env]
     (initial_world 6)
   = [\<lparr> res_world = \<lparr> sa_values = [Finite (9 / 2)], charging_rate = 18 \<rparr>,
        res_command = Some 18, res_raised = True \<rparr>]"
  by (simp add: cycle_decided[of _ 5 2 example_usage _ _ "Finite (9 / 2)" "[Finite (9 / 2)]" 18]
      example_env_def initial_world_def example_eval Let_def)

text \<open>
  C4. The claim that the decision uses the charger's setpoint as re-read at the start
  of the cycle fails: the script reads the \<^verbatim>\<open>charging_rate\<close> attribute of the object it
  fetched at start-up. With 18 A in that object and the charger set to 32 A by its
  owner since, the cycle computes 18 A and commands nothing, where a decision on the
  charger's own setpoint would have reported a change.
\<close>

theorem stale_charging_rate_used:
  "res_command (update_charge_amp_by_solaredge_data (configure no_args)
                  (example_env \<lparr> backend_rate := 32 \<rparr>) (initial_world 18)) = None
   \<and> decide (configure no_args) (Finite (9 / 2))
        (backend_rate (example_env \<lparr> backend_rate := 32 \<rparr>))
       = Inr (18, True)"
  by (simp add: cycle_decided[of _ 5 2 example_usage _ _ "Finite (9 / 2)" "[Finite (9 / 2)]" 18]
      example_env_def initial_world_def example_eval Let_def decide_def)

text \<open>
  C4, amended. In every cycle the last commanded value used by the decision is the
  \<^verbatim>\<open>charging_rate\<close> held by the charger object in memory: the outcome of the cycle does
  not depend on the setpoint the charger itself has, and when both reads succeed the
  setpoint written is the one \<open>decide\<close> reports against the rate in memory.
\<close>

theorem decision_uses_rate_in_memory:
  "update_charge_amp_by_solaredge_data cfg (e \<lparr> backend_rate := r \<rparr>) w
     = update_charge_amp_by_solaredge_data cfg e w
   \<and> (power_flow e = Returns (Some (p, c)) \<and> device_usage e = Returns d
      \<and> sliding_average (available_for_charger_kw (float_of p) (float_of c) d) (smooth cfg)
           (sa_values w) = (Inr a, vs)
      \<longrightarrow> res_command (update_charge_amp_by_solaredge_data cfg e w)
          = (case decide cfg (round2 a) (charging_rate w) of
               Inl err \<Rightarrow> None
             | Inr (final, changed) \<Rightarrow> if changed then Some final else None))"
proof -
  have "update_charge_amp_by_solaredge_data cfg (e \<lparr> backend_rate := r \<rparr>) w
     = update_charge_amp_by_solaredge_data cfg e w"
  proof -
    have reads: "power_flow (e \<lparr> backend_rate := r \<rparr>) = power_flow e"
      "device_usage (e \<lparr> backend_rate := r \<rparr>) = device_usage e"
      "update_charger (e \<lparr> backend_rate := r \<rparr>) = update_charger e"
      by simp_all
    show ?thesis
      unfolding update_charge_amp_by_solaredge_data_def reads by (rule refl)
  qed
  moreover have "res_command (update_charge_amp_by_solaredge_data cfg e w)
          = (case decide cfg (round2 a) (charging_rate w) of
               Inl err \<Rightarrow> None
             | Inr (final, changed) \<Rightarrow> if changed then Some final else None)"
    if reads: "power_flow e = Returns (Some (p, c))" "device_usage e = Returns d"
      "sliding_average (available_for_charger_kw (float_of p) (float_of c) d) (smooth cfg)
         (sa_values w) = (Inr a, vs)"
  proof (cases "final_amps cfg (round2 a)")
    case (Inl err)
    then show ?thesis
      using cycle_int_raises[OF reads Inl] by (simp add: decide_def)
  next
    case (Inr final)
    then show ?thesis
      using cycle_decided[OF reads Inr] by (simp add: decide_def Let_def split: py.splits)
  qed
  ultimately show ?thesis by blast
qed

theorem decision_uses_rate_in_memory_witness:
  "update_charge_amp_by_solaredge_data (configure no_args)
       (example_env \<lparr> backend_rate := 32 \<rparr>) (initial_world 18)
     = update_charge_amp_by_solaredge_data (configure no_args) example_env (initial_world 18)
   \<and> power_flow example_env = Returns (Some (5, 2))
   \<and> device_usage example_env = Returns example_usage
   \<and> sliding_average (available_for_charger_kw (float_of 5) (float_of 2) example_usage)
        (smooth (configure no_args)) (sa_values (initial_world 6))
       = (Inr (Finite (9 / 2)), [Finite (9 / 2)])
   \<and> res_command (update_charge_amp_by_solaredge_data (configure no_args) example_env
        (initial_world 6)) = Some 18"
  using decision_uses_rate_in_memory[where cfg = "configure no_args" and e = example_env
          and r = 32 and w = "initial_world 18"]
        decision_uses_rate_in_memory[where cfg = "configure no_args" and e = example_env
          and w = "initial_world 6" and p = 5 and c = 2 and d = example_usage
          and a = "Finite (9 / 2)" and vs = "[Finite (9 / 2)]"]
  by (simp add: example_env_def initial_world_def example_eval decide_def)

text \<open>
  C9. If the decision yields the current \<open>a\<close>, the same decision taken again with the
  last commanded value set to \<open>a\<close> reports no change; and in a cycle whose commanded
  current equals the rate held, \<^verbatim>\<open>vue.update_charger\<close> is not called and the rate held
  stays as it is.
\<close>

theorem no_write_when_unchanged:
  "(decide cfg v pre = Inr (a, ch) \<longrightarrow> decide cfg v a = Inr (a, False))
   \<and> (power_flow e = Returns (Some (p, c)) \<and> device_usage e = Returns d
      \<and> sliding_average (available_for_charger_kw (float_of p) (float_of c) d) (smooth cfg)
           (sa_values w) = (Inr m, vs)
      \<and> final_amps cfg (round2 m) = Inr (charging_rate w)
      \<longrightarrow> res_command (update_charge_amp_by_solaredge_data cfg e w) = None
          \<and> charging_rate (res_world (update_charge_amp_by_solaredge_data cfg e w))
              = charging_rate w)"
proof -
  have "res_command (update_charge_amp_by_solaredge_data cfg e w) = None
          \<and> charging_rate (res_world (update_charge_amp_by_solaredge_data cfg e w))
              = charging_rate w"
    if "power_flow e = Returns (Some (p, c))" "device_usage e = Returns d"
      "sliding_average (available_for_charger_kw (float_of p) (float_of c) d) (smooth cfg)
         (sa_values w) = (Inr m, vs)"
      "final_amps cfg (round2 m) = Inr (charging_rate w)"
    using cycle_decided[OF that] by (simp add: Let_def)
  moreover have "decide cfg v pre = Inr (a, ch) \<longrightarrow> decide cfg v a = Inr (a, False)"
    by (auto simp: decide_def split: sum.splits)
  ultimately show ?thesis by blast
qed

theorem no_write_when_unchanged_witness:
  "decide (configure no_args) (Finite (9 / 2)) 6 = Inr (18, True)
   \<and> decide (configure no_args) (Finite (9 / 2)) 18 = Inr (18, False)
   \<and> power_flow example_env = Returns (Some (5, 2))
   \<and> device_usage example_env = Returns example_usage
   \<and> sliding_average (available_for_charger_kw (float_of 5) (float_of 2) example_usage)
        (smooth (configure no_args)) (sa_values (initial_world 18))
       = (Inr (Finite (9 / 2)), [Finite (9 / 2)])
   \<and> final_amps (configure no_args) (round2 (Finite (9 / 2)))
       = Inr (charging_rate (initial_world 18))
   \<and> res_command (update_charge_amp_by_solaredge_data (configure no_args) example_env
        (initial_world 18)) = None"
  using no_write_when_unchanged[where cfg = "configure no_args" and v = "Finite (9 / 2)"
          and pre = 6 and a = 18 and ch = True and e = example_env and p = 5 and c = 2
          and d = example_usage and w = "initial_world 18" and m = "Finite (9 / 2)"
          and vs = "[Finite (9 / 2)]"]
  by (simp add: example_env_def initial_world_def example_eval decide_def)

subsection \<open>The fused value\<close>

lemma round2_cents:
  assumes "round2 a = Finite r"
  shows "\<exists>k. Finite r = float_of (of_int k / 100)"
proof (cases a)
  case (Finite x)
  then have "Finite r = float_of (of_int (round_half_even (x * 100)) / 100)"
    using assms by (simp add: round2_def)
  then show ?thesis by (rule exI)
next
  case NonFinite
  then show ?thesis using assms by (simp add: round2_def)
qed

text \<open>
  C5. The claim that the value fed to the sliding average is exactly \<open>p - c + d\<close>
  fails: each term is rounded to two decimals. With 5 kW produced, 2 kW consumed and
  a charger usage of 0.0251 kWh in the last minute (a draw of 1.506 kW) the fused
  value is the double nearest to 4.51. It is neither the exact 4.506 nor the sum
  \<open>p - c + d\<close> as double arithmetic gives it without the roundings to two decimals.
\<close>

theorem available_for_charger_kw_is_rounded:
  "available_for_charger_kw (float_of 5) (float_of 2)
     [(1, Device [(''1'', Channel (Some (251 / 10000)) [])])] = float_of (451 / 100)
   \<and> float_of (451 / 100) \<noteq> Finite (5 - 2 + 251 / 10000 * 60)
   \<and> float_of (451 / 100)
       \<noteq> fadd (fsub (float_of 5) (float_of 2))
            (fmul (vue_calc_usage_recursive
                     [(1, Device [(''1'', Channel (Some (251 / 10000)) [])])]) (Finite 60))"
  by (simp add: available_for_charger_kw_def prod_min_cons_kw_def cur_charger_usage_kw_def
      vue_calc_usage_recursive_def float_eval)

text \<open>
  C5, amended. The fused value is \<open>p - c + d\<close> rounded to two decimals at each step,
  in double arithmetic: \<^verbatim>\<open>round(round(p - c, 2) + round(d, 2), 2)\<close>, where \<open>d\<close> is the
  charger usage times 60. When finite it is the double nearest to a whole number of
  hundredths of a kW. It is not clamped and may be negative, and it is the value the
  cycle appends to the history of the sliding average (for a window size that is not
  negative, the last value of the history after the cycle).
\<close>

theorem available_for_charger_kw_cents:
  "available_for_charger_kw prod_kw cons_kw dict
     = round2 (fadd (round2 (fsub prod_kw cons_kw))
                    (round2 (fmul (vue_calc_usage_recursive dict) (Finite 60))))
   \<and> (available_for_charger_kw prod_kw cons_kw dict = Finite r
      \<longrightarrow> (\<exists>k. Finite r = float_of (of_int k / 100)))
   \<and> (power_flow e = Returns (Some (pv, load)) \<and> device_usage e = Returns dict
      \<and> 0 \<le> smooth cfg
      \<longrightarrow> last (sa_values (res_world (update_charge_amp_by_solaredge_data cfg e w)))
          = available_for_charger_kw (float_of pv) (float_of load) dict)"
proof -
  have "available_for_charger_kw prod_kw cons_kw dict
     = round2 (fadd (round2 (fsub prod_kw cons_kw))
                    (round2 (fmul (vue_calc_usage_recursive dict) (Finite 60))))"
    by (simp add: available_for_charger_kw_def prod_min_cons_kw_def cur_charger_usage_kw_def)
  moreover have "\<exists>k. Finite r = float_of (of_int k / 100)"
    if "available_for_charger_kw prod_kw cons_kw dict = Finite r"
    using that unfolding available_for_charger_kw_def by (rule round2_cents)
  moreover have "last (sa_values (res_world (update_charge_amp_by_solaredge_data cfg e w)))
          = available_for_charger_kw (float_of pv) (float_of load) dict"
    if "power_flow e = Returns (Some (pv, load))" "device_usage e = Returns dict"
      "0 \<le> smooth cfg"
    using cycle_history[OF that(1,2)] last_sliding_average[OF that(3)] by simp
  ultimately show ?thesis by blast
qed

lemma available_negative: "available_for_charger_kw (float_of 1) (float_of 3) [] = Finite (- 2)"
  by (simp add: available_for_charger_kw_def prod_min_cons_kw_def cur_charger_usage_kw_def
      vue_calc_usage_recursive_def float_eval)

theorem available_for_charger_kw_cents_witness:
  "available_for_charger_kw (float_of 1) (float_of 3) [] = Finite (- 2)
   \<and> (\<exists>k. Finite (- 2) = float_of (of_int k / 100))
   \<and> power_flow example_env = Returns (Some (5, 2))
   \<and> device_usage example_env = Returns example_usage
   \<and> 0 \<le> smooth (configure no_args)
   \<and> last (sa_values (res_world (update_charge_amp_by_solaredge_data (configure no_args)
              example_env (initial_world 6))))
       = Finite (9 / 2)"
proof -
  have neg: "available_for_charger_kw (float_of 1) (float_of 3) [] = Finite (- 2)"
    by (rule available_negative)
  have cents: "\<exists>k. Finite (- 2) = float_of (of_int k / 100)"
    using available_for_charger_kw_cents[where prod_kw = "float_of 1" and cons_kw = "float_of 3"
            and dict = "[]" and r = "- 2"] neg
    by blast
  have reads: "power_flow example_env = Returns (Some (5, 2))"
    "device_usage example_env = Returns example_usage"
    by (simp_all add: example_env_def)
  have window: "0 \<le> smooth (configure no_args)"
    by (simp add: config_default)
  have "last (sa_values (res_world (update_charge_amp_by_solaredge_data (configure no_args)
              example_env (initial_world 6))))
       = available_for_charger_kw (float_of 5) (float_of 2) example_usage"
    using available_for_charger_kw_cents[where e = example_env and pv = 5 and load = 2
            and dict = example_usage and cfg = "configure no_args" and w = "initial_world 6"]
          reads window
    by blast
  then have fed: "last (sa_values (res_world (update_charge_amp_by_solaredge_data
              (configure no_args) example_env (initial_world 6))))
       = Finite (9 / 2)"
    by (simp only: available_example)
  show ?thesis
    using neg cents reads window fed by blast
qed


end
